theory Spec2Isabelle
  imports Main "HOL-Library.AList"
begin

section \<open>JavaScript strings and values\<close>

text \<open>
  A JavaScript string is a sequence of UTF-16 code units.  A code unit is modelled as a
  natural number, so that every text the component can receive is covered; \<open>str\<close> turns
  an ASCII literal into its code units.
\<close>

type_synonym code_unit = nat
type_synonym jsstring = "code_unit list"

definition str :: "string \<Rightarrow> jsstring" where
  "str s = map of_char s"

text \<open>
  A number literal is kept as the exact decimal it denotes,
  \<open>(-1)\<^sup>s * mantissa * 10\<^sup>e\<close>.  The only thing the component asks of a number is whether it
  is truthy, that is whether the IEEE double it rounds to is not zero.
\<close>

datatype jsnum = Decimal bool nat int

datatype json =
    JNull
  | JBool bool
  | JNumber jsnum
  | JString jsstring
  | JArray "json list"
  | JObject "(jsstring \<times> json) list"

text \<open>
  A decimal rounds to \<open>+0\<close> or \<open>-0\<close> exactly when its magnitude is at most \<open>2\<^sup>-\<^sup>1\<^sup>0\<^sup>7\<^sup>5\<close>,
  half of the least positive double (the tie goes to the even neighbour, which is zero).
\<close>

fun rounds_to_zero :: "jsnum \<Rightarrow> bool" where
  "rounds_to_zero (Decimal s m e) =
     (if 0 \<le> e then m = 0 else m * 2 ^ 1075 \<le> 10 ^ nat (- e))"

text \<open>
  \<open>ToBoolean\<close>: \<open>null\<close>, \<open>false\<close>, the empty string and the zeros are falsy; every
  array and object is truthy.  \<open>undefined\<close> is \<open>None\<close>.
\<close>

fun truthy :: "json \<Rightarrow> bool" where
  "truthy JNull = False"
| "truthy (JBool b) = b"
| "truthy (JNumber n) = (\<not> rounds_to_zero n)"
| "truthy (JString s) = (s \<noteq> [])"
| "truthy (JArray vs) = True"
| "truthy (JObject kvs) = True"

fun truthy_opt :: "json option \<Rightarrow> bool" where
  "truthy_opt None = False"
| "truthy_opt (Some v) = truthy v"

text \<open>
  Exceptions are values.  \<open>Error\<close> is what the component throws itself, with its message;
  \<open>SyntaxError\<close> is what \<open>JSON.parse\<close> throws and \<open>TypeError\<close> what reading a property of
  \<open>null\<close> throws (the wording of their messages is the engine's; the component never
  shows it).
\<close>

datatype exn = Error jsstring | SyntaxError jsstring | TypeError jsstring

fun message :: "exn \<Rightarrow> jsstring" where
  "message (Error m) = m"
| "message (SyntaxError m) = m"
| "message (TypeError m) = m"

text \<open>
  Reading the property \<open>k\<close> of a parsed value, for a \<open>k\<close> that no built-in prototype
  defines (the component reads \<open>prompt\<close>, \<open>summary\<close> and \<open>agent_id\<close>): an object
  gives its own property or \<open>undefined\<close>, \<open>null\<close> throws, and every other value gives
  \<open>undefined\<close>.
\<close>

fun get_property :: "json \<Rightarrow> jsstring \<Rightarrow> exn + json option" where
  "get_property JNull k =
     Inl (TypeError (str ''Cannot read properties of null (reading '' @ [39] @ k @ [39] @ str '')''))"
| "get_property (JObject kvs) k = Inr (map_of kvs k)"
| "get_property v k = Inr None"

section \<open>\<open>JSON.parse\<close>\<close>

text \<open>
  \<open>JSON.parse\<close> is a built-in of the language.  It is modelled by a lexer and a parser
  for the JSON grammar, each a machine that consumes one symbol at a time, so that both
  are total by structural recursion.
\<close>

datatype token =
    LBrace | RBrace | LBracket | RBracket | Colon | Comma
  | TString jsstring | TNumber jsnum | TTrue | TFalse | TNull

datatype lex_state =
    Ready
  | In_literal jsstring token
  | In_string jsstring
  | In_escape jsstring
  | In_unicode jsstring "nat list"
  | Num_minus
  | Num_int bool nat bool
  | Num_dot bool nat
  | Num_frac bool nat nat
  | Num_e bool nat nat
  | Num_esign bool nat nat bool
  | Num_exp bool nat nat bool nat

definition is_ws :: "code_unit \<Rightarrow> bool" where
  "is_ws c = (c = 9 \<or> c = 10 \<or> c = 13 \<or> c = 32)"

definition is_digit :: "code_unit \<Rightarrow> bool" where
  "is_digit c = (48 \<le> c \<and> c \<le> 57)"

definition digit_value :: "code_unit \<Rightarrow> nat" where
  "digit_value c = c - 48"

definition hex_value :: "code_unit \<Rightarrow> nat option" where
  "hex_value c =
     (if 48 \<le> c \<and> c \<le> 57 then Some (c - 48)
      else if 65 \<le> c \<and> c \<le> 70 then Some (c - 55)
      else if 97 \<le> c \<and> c \<le> 102 then Some (c - 87)
      else None)"

definition is_exp_mark :: "code_unit \<Rightarrow> bool" where
  "is_exp_mark c = (c = of_char CHR ''e'' \<or> c = of_char CHR ''E'')"

text \<open>A code unit met between two tokens.\<close>

definition start :: "code_unit \<Rightarrow> (token list \<times> lex_state) option" where
  "start c =
     (if is_ws c then Some ([], Ready)
      else if c = of_char CHR ''{'' then Some ([LBrace], Ready)
      else if c = of_char CHR ''}'' then Some ([RBrace], Ready)
      else if c = of_char CHR ''['' then Some ([LBracket], Ready)
      else if c = of_char CHR '']'' then Some ([RBracket], Ready)
      else if c = of_char CHR '':'' then Some ([Colon], Ready)
      else if c = of_char CHR '','' then Some ([Comma], Ready)
      else if c = 34 then Some ([], In_string [])
      else if c = of_char CHR ''-'' then Some ([], Num_minus)
      else if c = of_char CHR ''0'' then Some ([], Num_int False 0 False)
      else if is_digit c then Some ([], Num_int False (digit_value c) True)
      else if c = of_char CHR ''t'' then Some ([], In_literal (str ''rue'') TTrue)
      else if c = of_char CHR ''f'' then Some ([], In_literal (str ''alse'') TFalse)
      else if c = of_char CHR ''n'' then Some ([], In_literal (str ''ull'') TNull)
      else None)"

text \<open>A number has ended at the code unit \<open>c\<close>, which starts what follows.\<close>

definition end_number :: "jsnum \<Rightarrow> code_unit \<Rightarrow> (token list \<times> lex_state) option" where
  "end_number n c =
     (case start c of None \<Rightarrow> None | Some (ts, st) \<Rightarrow> Some (TNumber n # ts, st))"

definition exponent :: "bool \<Rightarrow> nat \<Rightarrow> nat \<Rightarrow> int" where
  "exponent eneg x f = (if eneg then - int x else int x) - int f"

definition unescape :: "code_unit \<Rightarrow> code_unit option" where
  "unescape c =
     (if c = 34 then Some 34
      else if c = 92 then Some 92
      else if c = of_char CHR ''/'' then Some 47
      else if c = of_char CHR ''b'' then Some 8
      else if c = of_char CHR ''f'' then Some 12
      else if c = of_char CHR ''n'' then Some 10
      else if c = of_char CHR ''r'' then Some 13
      else if c = of_char CHR ''t'' then Some 9
      else None)"

fun step :: "lex_state \<Rightarrow> code_unit \<Rightarrow> (token list \<times> lex_state) option" where
  "step Ready c = start c"
| "step (In_literal [] tok) c = None"
| "step (In_literal (x # xs) tok) c =
     (if c \<noteq> x then None
      else if xs = [] then Some ([tok], Ready) else Some ([], In_literal xs tok))"
| "step (In_string acc) c =
     (if c = 34 then Some ([TString acc], Ready)
      else if c = 92 then Some ([], In_escape acc)
      else if c < 32 then None
      else Some ([], In_string (acc @ [c])))"
| "step (In_escape acc) c =
     (if c = of_char CHR ''u'' then Some ([], In_unicode acc [])
      else (case unescape c of
              None \<Rightarrow> None
            | Some u \<Rightarrow> Some ([], In_string (acc @ [u]))))"
| "step (In_unicode acc ds) c =
     (case hex_value c of
        None \<Rightarrow> None
      | Some d \<Rightarrow>
          if length ds = 3
          then Some ([], In_string (acc @ [foldl (\<lambda>a h. 16 * a + h) 0 (ds @ [d])]))
          else Some ([], In_unicode acc (ds @ [d])))"
| "step Num_minus c =
     (if c = of_char CHR ''0'' then Some ([], Num_int True 0 False)
      else if is_digit c then Some ([], Num_int True (digit_value c) True)
      else None)"
| "step (Num_int neg m more) c =
     (if is_digit c
      then (if more then Some ([], Num_int neg (10 * m + digit_value c) True) else None)
      else if c = of_char CHR ''.'' then Some ([], Num_dot neg m)
      else if is_exp_mark c then Some ([], Num_e neg m 0)
      else end_number (Decimal neg m 0) c)"
| "step (Num_dot neg m) c =
     (if is_digit c then Some ([], Num_frac neg (10 * m + digit_value c) 1) else None)"
| "step (Num_frac neg m f) c =
     (if is_digit c then Some ([], Num_frac neg (10 * m + digit_value c) (Suc f))
      else if is_exp_mark c then Some ([], Num_e neg m f)
      else end_number (Decimal neg m (- int f)) c)"
| "step (Num_e neg m f) c =
     (if c = of_char CHR ''+'' then Some ([], Num_esign neg m f False)
      else if c = of_char CHR ''-'' then Some ([], Num_esign neg m f True)
      else if is_digit c then Some ([], Num_exp neg m f False (digit_value c))
      else None)"
| "step (Num_esign neg m f eneg) c =
     (if is_digit c then Some ([], Num_exp neg m f eneg (digit_value c)) else None)"
| "step (Num_exp neg m f eneg x) c =
     (if is_digit c then Some ([], Num_exp neg m f eneg (10 * x + digit_value c))
      else end_number (Decimal neg m (exponent eneg x f)) c)"

text \<open>The end of the input: only between tokens, or at the end of a complete number.\<close>

fun finish :: "lex_state \<Rightarrow> token list option" where
  "finish Ready = Some []"
| "finish (Num_int neg m more) = Some [TNumber (Decimal neg m 0)]"
| "finish (Num_frac neg m f) = Some [TNumber (Decimal neg m (- int f))]"
| "finish (Num_exp neg m f eneg x) = Some [TNumber (Decimal neg m (exponent eneg x f))]"
| "finish st = None"

fun tokens_from :: "lex_state \<Rightarrow> jsstring \<Rightarrow> token list option" where
  "tokens_from st [] = finish st"
| "tokens_from st (c # cs) =
     (case step st c of
        None \<Rightarrow> None
      | Some (ts, st') \<Rightarrow>
          (case tokens_from st' cs of None \<Rightarrow> None | Some ts' \<Rightarrow> Some (ts @ ts')))"

text \<open>
  The parser keeps a stack of the arrays and objects that are open.  A key that waits
  for its value lies on top of its object.  A repeated key keeps its first place and
  takes the last value, as a JavaScript object does.
\<close>

datatype frame = Arr "json list" | Obj "(jsstring \<times> json) list" | Key jsstring

datatype expect =
    Want_value
  | Want_value_or_close
  | Want_key_or_close
  | Want_key
  | Want_colon
  | Want_sep
  | Finished json

fun reduce :: "json \<Rightarrow> frame list \<Rightarrow> (expect \<times> frame list) option" where
  "reduce v [] = Some (Finished v, [])"
| "reduce v (Arr vs # st) = Some (Want_sep, Arr (vs @ [v]) # st)"
| "reduce v (Key k # Obj kvs # st) = Some (Want_sep, Obj (AList.update k v kvs) # st)"
| "reduce v st = None"

fun close_array :: "frame list \<Rightarrow> (expect \<times> frame list) option" where
  "close_array (Arr vs # st) = reduce (JArray vs) st"
| "close_array st = None"

fun close_object :: "frame list \<Rightarrow> (expect \<times> frame list) option" where
  "close_object (Obj kvs # st) = reduce (JObject kvs) st"
| "close_object st = None"

fun begin_value :: "token \<Rightarrow> frame list \<Rightarrow> (expect \<times> frame list) option" where
  "begin_value LBracket st = Some (Want_value_or_close, Arr [] # st)"
| "begin_value LBrace st = Some (Want_key_or_close, Obj [] # st)"
| "begin_value (TString s) st = reduce (JString s) st"
| "begin_value (TNumber n) st = reduce (JNumber n) st"
| "begin_value TTrue st = reduce (JBool True) st"
| "begin_value TFalse st = reduce (JBool False) st"
| "begin_value TNull st = reduce JNull st"
| "begin_value t st = None"

fun begin_key :: "token \<Rightarrow> frame list \<Rightarrow> (expect \<times> frame list) option" where
  "begin_key (TString k) st = Some (Want_colon, Key k # st)"
| "begin_key t st = None"

fun after_comma :: "frame list \<Rightarrow> (expect \<times> frame list) option" where
  "after_comma (Arr vs # st) = Some (Want_value, Arr vs # st)"
| "after_comma (Obj kvs # st) = Some (Want_key, Obj kvs # st)"
| "after_comma st = None"

fun pstep :: "expect \<Rightarrow> frame list \<Rightarrow> token \<Rightarrow> (expect \<times> frame list) option" where
  "pstep Want_value st t = begin_value t st"
| "pstep Want_value_or_close st t = (if t = RBracket then close_array st else begin_value t st)"
| "pstep Want_key_or_close st t = (if t = RBrace then close_object st else begin_key t st)"
| "pstep Want_key st t = begin_key t st"
| "pstep Want_colon st t = (if t = Colon then Some (Want_value, st) else None)"
| "pstep Want_sep st t =
     (if t = Comma then after_comma st
      else if t = RBracket then close_array st
      else if t = RBrace then close_object st
      else None)"
| "pstep (Finished v) st t = None"

fun run :: "expect \<Rightarrow> frame list \<Rightarrow> token list \<Rightarrow> json option" where
  "run (Finished v) st [] = Some v"
| "run e st [] = None"
| "run e st (t # ts) =
     (case pstep e st t of None \<Rightarrow> None | Some (e', st') \<Rightarrow> run e' st' ts)"

definition JSON_parse :: "jsstring \<Rightarrow> exn + json" where
  "JSON_parse s =
     (case tokens_from Ready s of
        None \<Rightarrow> Inl (SyntaxError (str ''Unexpected token''))
      | Some ts \<Rightarrow>
          (case run Want_value [] ts of
             None \<Rightarrow> Inl (SyntaxError (str ''Unexpected token''))
           | Some v \<Rightarrow> Inr v))"

section \<open>The response extractor\<close>

text \<open>
  \<open>text.match(/\{[\s\S]*\}/)\<close>: the pattern is tried at each position from the left; at a
  \<open>{\<close> the star takes as much as it can, so the match runs to the last \<open>}\<close> of the text.
\<close>

definition longest_to_rbrace :: "jsstring \<Rightarrow> jsstring option" where
  "longest_to_rbrace cs =
     (let keep = rev (dropWhile (\<lambda>c. c \<noteq> of_char CHR ''}'') (rev cs))
      in if keep = [] then None else Some keep)"

fun match_object_regex :: "jsstring \<Rightarrow> jsstring option" where
  "match_object_regex [] = None"
| "match_object_regex (c # cs) =
     (if c = of_char CHR ''{''
      then (case longest_to_rbrace cs of
              Some m \<Rightarrow> Some (c # m)
            | None \<Rightarrow> match_object_regex cs)
      else match_object_regex cs)"

text \<open>\<open>result.prompt && result.summary\<close>: the second property is read only if the first is truthy.\<close>

definition has_fields :: "json \<Rightarrow> exn + bool" where
  "has_fields result =
     (case get_property result (str ''prompt'') of
        Inl e \<Rightarrow> Inl e
      | Inr p \<Rightarrow>
          if truthy_opt p
          then (case get_property result (str ''summary'') of
                  Inl e \<Rightarrow> Inl e
                | Inr q \<Rightarrow> Inr (truthy_opt q))
          else Inr False)"

definition invalid_structure :: exn where
  "invalid_structure = Error (str ''Invalid JSON structure in response'')"

definition no_valid_json :: exn where
  "no_valid_json = Error (str ''No valid JSON found in response'')"

text \<open>
  \<open>extractJSONFromResponse\<close>.  The outer \<open>try\<close> returns whatever the whole text parses
  to.  Its \<open>catch\<close> parses the match of the pattern; anything thrown in the inner \<open>try\<close>
  becomes the error "Invalid JSON structure in response", and leaving the inner \<open>try\<close>
  without a return ends in the error "No valid JSON found in response".
\<close>

definition extractJSONFromResponse :: "jsstring \<Rightarrow> exn + json" where
  "extractJSONFromResponse t =
     (case JSON_parse t of
        Inr v \<Rightarrow> Inr v
      | Inl e \<Rightarrow>
          (case match_object_regex t of
             None \<Rightarrow> Inl no_valid_json
           | Some m \<Rightarrow>
               (case JSON_parse m of
                  Inl e' \<Rightarrow> Inl invalid_structure
                | Inr result \<Rightarrow>
                    (case has_fields result of
                       Inl e' \<Rightarrow> Inl invalid_structure
                     | Inr True \<Rightarrow> Inr result
                     | Inr False \<Rightarrow> Inl no_valid_json))))"

section \<open>The component: state, collaborators and effects\<close>

type_synonym uid = jsstring
type_synonym Mode = jsstring
type_synonym document = "jsstring \<rightharpoonup> json"

datatype role = User | Assistant | System

record Message =
  role :: role
  content :: jsstring

datatype call_status = Not_started | Active | Inactive

text \<open>
  The hooks of \<open>Brain\<close>.  \<open>pendingChange\<close> and \<open>agentData\<close> hold a value or \<open>null\<close>
  (\<open>JNull\<close>).  The two hooks that only steer the layout (\<open>isNavbarExpanded\<close>,
  \<open>showInterface\<close>) are left out.
\<close>

record state =
  selectedMode :: Mode
  messages :: "Message list"
  inputMessage :: jsstring
  isLoading :: bool
  pendingChange :: json
  callStatus :: call_status
  agentData :: json

definition initial_state :: state where
  "initial_state =
     \<lparr>selectedMode = str ''customer'', messages = [], inputMessage = [], isLoading = False,
      pendingChange = JNull, callStatus = Not_started, agentData = JNull\<rparr>"

text \<open>What the component does to the outside, in the order it does it.\<close>

datatype toast_status = Success | Failure

datatype effect =
    Console_error jsstring "exn option"
  | Toast jsstring jsstring toast_status
  | Render_error exn
  | Chat_completion_request jsstring jsstring
  | Update_doc uid jsstring json
  | Update_LLM uid Mode
  | Stop_call
  | Create_web_call "json option"
  | Start_call "json option" "json option"

text \<open>The \<open>users\<close> collection of the document store, and the log of effects.\<close>

record world =
  db :: "uid \<rightharpoonup> document"
  effects :: "effect list"

definition emit :: "effect list \<Rightarrow> world \<Rightarrow> world" where
  "emit es w = w\<lparr>effects := effects w @ es\<rparr>"

text \<open>
  The answer to the chat completion request: \<open>fetch\<close> or \<open>response.json()\<close> rejected; a
  response that is not \<open>ok\<close>, with \<open>errorData.error?.message\<close> if there is one; a response
  without \<open>choices[0].message.content\<close>; or the content.
\<close>

datatype completion =
    Fetch_rejected exn
  | Http_failure "jsstring option"
  | No_content
  | Content jsstring

text \<open>
  The answer to the call creation request: \<open>fetch\<close> or \<open>response.json()\<close> rejected; a
  response that is not \<open>ok\<close>, with its status in decimal; or a response that is \<open>ok\<close>,
  with \<open>access_token\<close> and \<open>call_id\<close> of its body.
\<close>

datatype web_call =
    Call_rejected exn
  | Call_http_failure jsstring
  | Call_created "json option" "json option"

text \<open>
  What the component cannot decide: the signed-in user, the answers and failures of the
  services, and the functions it imports from modules that are not part of this
  component (\<open>generatePrompt\<close>; \<open>updateLLM\<close> appears as an effect and its failure).
  \<open>ToString_other\<close> is the string conversion of a template literal for a value that is
  not a string.  \<open>Button_disabled\<close> is the button of the interface library, which is not
  part of this component either: from the properties \<open>isLoading\<close> and \<open>disabled\<close> that it
  is given, in this order, it decides whether the rendered button is disabled.
\<close>

record env =
  currentUser :: "uid option"
  getDoc_fails :: "exn option"
  generatePrompt :: "document \<Rightarrow> Mode \<Rightarrow> json"
  ToString_other :: "json option \<Rightarrow> exn + jsstring"
  chat_completions :: "jsstring \<Rightarrow> jsstring \<Rightarrow> completion"
  updateDoc_fails :: "exn option"
  firestore_invalid_data :: exn
  firestore_not_found :: exn
  updateLLM_fails :: "exn option"
  stopCall_fails :: "exn option"
  create_web_call :: "json option \<Rightarrow> web_call"
  startCall_fails :: "exn option"
  Button_disabled :: "bool \<Rightarrow> bool \<Rightarrow> bool"

definition interpolate :: "env \<Rightarrow> json option \<Rightarrow> exn + jsstring" where
  "interpolate en v = (case v of Some (JString s) \<Rightarrow> Inr s | _ \<Rightarrow> ToString_other en v)"

text \<open>
  Firestore's \<open>updateDoc\<close> with one field, named without a dot as the mode names are: it
  throws on an \<open>undefined\<close> value, rejects when the write fails or the document does not
  exist, and otherwise sets that field of the document and no other.
\<close>

definition updateDoc :: "env \<Rightarrow> uid \<Rightarrow> jsstring \<Rightarrow> json option \<Rightarrow> world \<Rightarrow> exn + world" where
  "updateDoc en u field v w =
     (case v of
        None \<Rightarrow> Inl (firestore_invalid_data en)
      | Some x \<Rightarrow>
          (case updateDoc_fails en of
             Some e \<Rightarrow> Inl e
           | None \<Rightarrow>
               (case db w u of
                  None \<Rightarrow> Inl (firestore_not_found en)
                | Some d \<Rightarrow>
                    Inr (emit [Update_doc u field x] (w\<lparr>db := (db w)(u \<mapsto> d(field \<mapsto> x))\<rparr>)))))"

section \<open>The call session\<close>

text \<open>The three listeners registered on the call client.\<close>

definition handleConversationStarted :: "state \<times> world \<Rightarrow> state \<times> world" where
  "handleConversationStarted = (\<lambda>(s, w). (s\<lparr>callStatus := Active\<rparr>, w))"

definition handleConversationEnded :: "state \<times> world \<Rightarrow> state \<times> world" where
  "handleConversationEnded = (\<lambda>(s, w). (s\<lparr>callStatus := Inactive\<rparr>, w))"

definition handleError :: "exn \<Rightarrow> state \<times> world \<Rightarrow> state \<times> world" where
  "handleError e = (\<lambda>(s, w).
     (s\<lparr>callStatus := Inactive\<rparr>, emit [Console_error (str ''An error occurred:'') (Some e)] w))"

text \<open>The \<open>else\<close> branch of \<open>toggleConversation\<close>: creating and starting a call.\<close>

definition start_conversation :: "env \<Rightarrow> state \<times> world \<Rightarrow> state \<times> world" where
  "start_conversation en = (\<lambda>(s, w).
     if \<not> truthy (agentData s)
     then (s, emit [Console_error (str ''Agent not created yet'') None] w)
     else
       (case get_property (agentData s) (str ''agent_id'') of
          Inl e \<Rightarrow> (s, emit [Console_error (str ''Error starting call:'') (Some e)] w)
        | Inr aid \<Rightarrow>
            (let w1 = emit [Create_web_call aid] w in
             case create_web_call en aid of
               Call_rejected e \<Rightarrow>
                 (s, emit [Console_error (str ''Error starting call:'') (Some e)] w1)
             | Call_http_failure st \<Rightarrow>
                 (s, emit [Console_error (str ''Error starting call:'')
                             (Some (Error (str ''HTTP error! status: '' @ st)))] w1)
             | Call_created tok cid \<Rightarrow>
                 (let w2 = emit [Start_call tok cid] w1 in
                  case startCall_fails en of
                    Some e \<Rightarrow>
                      (s, emit [Console_error (str ''Error starting call:'') (Some e)] w2)
                  | None \<Rightarrow> (s\<lparr>callStatus := Active\<rparr>, w2)))))"

text \<open>
  \<open>toggleConversation\<close>.  In the active branch \<open>setCallStatus('inactive')\<close> stands after
  \<open>await webClient.stopCall()\<close> inside the \<open>try\<close>; the \<open>catch\<close> only logs.
\<close>

definition toggleConversation :: "env \<Rightarrow> state \<times> world \<Rightarrow> state \<times> world" where
  "toggleConversation en = (\<lambda>(s, w).
     if callStatus s = Active
     then
       (let w1 = emit [Stop_call] w in
        case stopCall_fails en of
          None \<Rightarrow> (s\<lparr>callStatus := Inactive\<rparr>, w1)
        | Some e \<Rightarrow> (s, emit [Console_error (str ''Error stopping call:'') (Some e)] w1))
     else start_conversation en (s, w))"

text \<open>\<open>loadUserData\<close>, the effect that runs when the mode changes.\<close>

definition loadUserData :: "env \<Rightarrow> state \<times> world \<Rightarrow> state \<times> world" where
  "loadUserData en = (\<lambda>(s, w).
     case currentUser en of
       None \<Rightarrow> (s, w)
     | Some u \<Rightarrow>
         (case getDoc_fails en of
            Some e \<Rightarrow> (s, w)
          | None \<Rightarrow>
              (case db w u of
                 None \<Rightarrow> (s, w)
               | Some d \<Rightarrow>
                   (case d (selectedMode s @ str ''AgentData'') of
                      None \<Rightarrow> (s\<lparr>agentData := JNull\<rparr>, w)
                    | Some v \<Rightarrow> (s\<lparr>agentData := (if truthy v then v else JNull)\<rparr>, w)))))"

section \<open>The prompt mutation workflow\<close>

text \<open>
  \<open>String.prototype.trim\<close> removes white space and line terminators from both ends.
\<close>

definition is_trim_space :: "code_unit \<Rightarrow> bool" where
  "is_trim_space c =
     (c = 9 \<or> c = 10 \<or> c = 11 \<or> c = 12 \<or> c = 13 \<or> c = 32 \<or> c = 160 \<or> c = 5760
      \<or> (8192 \<le> c \<and> c \<le> 8202) \<or> c = 8232 \<or> c = 8233 \<or> c = 8239 \<or> c = 8287
      \<or> c = 12288 \<or> c = 65279)"

definition trim :: "jsstring \<Rightarrow> jsstring" where
  "trim s = rev (dropWhile is_trim_space (rev (dropWhile is_trim_space s)))"

text \<open>
  \<open>userData[`${selectedMode}GeneralPrompt`] || generatePrompt(userData, selectedMode)\<close>
\<close>

definition currentPrompt :: "env \<Rightarrow> document \<Rightarrow> Mode \<Rightarrow> json" where
  "currentPrompt en d mode =
     (case d (mode @ str ''GeneralPrompt'') of
        None \<Rightarrow> generatePrompt en d mode
      | Some v \<Rightarrow> if truthy v then v else generatePrompt en d mode)"

text \<open>
  The text of the system message before the current prompt.  In the source the words
  "marked with" are followed by a substitution of an empty object literal, which a
  template literal prints as \<open>[object Object]\<close>.
\<close>

definition system_prefix :: jsstring where
  \<open>system_prefix =
     str ''You are a prompt engineering expert. Your task is to modify the provided prompt while preserving all variables (marked with [object Object]) exactly as they are. Format your response as a JSON object with exactly these fields:''
     @ [10] @ str ''{''
     @ [10] @ str ''  "prompt": "the modified prompt",''
     @ [10] @ str ''  "summary": "a brief summary of the changes made"''
     @ [10] @ str ''}''
     @ [10, 10] @ str ''Current prompt:'' @ [10]\<close>

definition systemPrompt :: "env \<Rightarrow> json \<Rightarrow> exn + jsstring" where
  "systemPrompt en cp =
     (case interpolate en (Some cp) of Inl e \<Rightarrow> Inl e | Inr t \<Rightarrow> Inr (system_prefix @ t))"

text \<open>
  The \<open>try\<close> block of \<open>handleSendMessage\<close> up to the call of the extractor: the proposal
  or what was thrown, and the world with the request that was sent.  The request carries
  the model \<open>gpt-4o\<close>, temperature 0.7, at most 2000 tokens and the JSON object response
  format, which are constants.
\<close>

definition request_proposal :: "env \<Rightarrow> state \<Rightarrow> world \<Rightarrow> (exn + json) \<times> world" where
  "request_proposal en s w =
     (case currentUser en of
        None \<Rightarrow> (Inl (Error (str ''No authenticated user'')), w)
      | Some u \<Rightarrow>
          (case getDoc_fails en of
             Some e \<Rightarrow> (Inl e, w)
           | None \<Rightarrow>
               (case db w u of
                  None \<Rightarrow> (Inl (Error (str ''User document not found'')), w)
                | Some d \<Rightarrow>
                    (case systemPrompt en (currentPrompt en d (selectedMode s)) of
                       Inl e \<Rightarrow> (Inl e, w)
                     | Inr sys \<Rightarrow>
                         (let w1 = emit [Chat_completion_request sys (inputMessage s)] w in
                          case chat_completions en sys (inputMessage s) of
                            Fetch_rejected e \<Rightarrow> (Inl e, w1)
                          | Http_failure m \<Rightarrow>
                              (Inl (Error (str ''OpenAI API error: '' @
                                 (case m of
                                    None \<Rightarrow> str ''Unknown error''
                                  | Some t \<Rightarrow> if t = [] then str ''Unknown error'' else t))), w1)
                          | No_content \<Rightarrow>
                              (Inl (Error (str ''Invalid response format from OpenAI'')), w1)
                          | Content c \<Rightarrow>
                              (if c = []
                               then (Inl (Error (str ''Invalid response format from OpenAI'')), w1)
                               else (extractJSONFromResponse c, w1)))))))"

text \<open>The content of the assistant message that presents a proposal.\<close>

definition proposal_message :: "env \<Rightarrow> json \<Rightarrow> exn + jsstring" where
  "proposal_message en result =
     (case get_property result (str ''summary'') of
        Inl e \<Rightarrow> Inl e
      | Inr q \<Rightarrow>
          (case interpolate en q of
             Inl e \<Rightarrow> Inl e
           | Inr t \<Rightarrow>
               Inr (str ''Here'' @ [39] @ str ''s what I understand you want to change:'' @ [10, 10]
                    @ t @ [10, 10] @ str ''Would you like me to apply these changes?'')))"

definition error_message :: "exn \<Rightarrow> jsstring" where
  "error_message e =
     str ''I encountered an error: '' @ message e
       @ str ''. Please try again with a different request.''"

definition or_default :: "jsstring \<Rightarrow> jsstring \<Rightarrow> jsstring" where
  "or_default m d = (if m = [] then d else m)"

text \<open>
  \<open>handleSendMessage\<close>, run to its end.  The function returns at once on a blank input
  and has no other guard.  The user message holds the input as it was when the handler
  was called.  The content of the assistant message is computed inside the updater
  passed to \<open>setMessages\<close>, outside the \<open>try\<close>: if that throws, no message is appended and
  the rendering fails.
\<close>

definition handleSendMessage :: "env \<Rightarrow> state \<times> world \<Rightarrow> state \<times> world" where
  "handleSendMessage en = (\<lambda>(s, w).
     if trim (inputMessage s) = [] then (s, w)
     else
       (let s1 = s\<lparr>isLoading := True,
                    messages := messages s @ [\<lparr>role = User, content = inputMessage s\<rparr>],
                    inputMessage := []\<rparr>
        in case request_proposal en s w of
             (Inr result, w1) \<Rightarrow>
               (let s2 = s1\<lparr>pendingChange := result\<rparr> in
                case proposal_message en result of
                  Inr t \<Rightarrow>
                    (s2\<lparr>messages := messages s2 @ [\<lparr>role = Assistant, content = t\<rparr>],
                        isLoading := False\<rparr>, w1)
                | Inl e \<Rightarrow> (s2\<lparr>isLoading := False\<rparr>, emit [Render_error e] w1))
           | (Inl e, w1) \<Rightarrow>
               (s1\<lparr>messages := messages s1 @ [\<lparr>role = Assistant, content = error_message e\<rparr>],
                   isLoading := False\<rparr>,
                emit [Console_error (str ''Error:'') (Some e),
                      Toast (str ''Error'')
                        (or_default (message e) (str ''Failed to process your request''))
                        Failure] w1)))"

text \<open>
  The \<open>try\<close> block of \<open>handleConfirmChange\<close> up to the call of \<open>updateLLM\<close>: what was
  thrown, if anything, and the world after the calls that were made.
\<close>

definition commit :: "env \<Rightarrow> state \<Rightarrow> world \<Rightarrow> exn option \<times> world" where
  "commit en s w =
     (case currentUser en of
        None \<Rightarrow> (Some (Error (str ''No authenticated user'')), w)
      | Some u \<Rightarrow>
          (case get_property (pendingChange s) (str ''prompt'') of
             Inl e \<Rightarrow> (Some e, w)
           | Inr p \<Rightarrow>
               (case updateDoc en u (selectedMode s @ str ''GeneralPrompt'') p w of
                  Inl e \<Rightarrow> (Some e, w)
                | Inr w1 \<Rightarrow>
                    (updateLLM_fails en, emit [Update_LLM u (selectedMode s)] w1))))"

text \<open>
  \<open>handleConfirmChange\<close>.  The reset of the first branch comes before the user is looked
  up.  The two setters that clear the proposal and the transcript after a commit are the
  last statements of the \<open>try\<close>; the \<open>catch\<close> logs and shows a toast.
\<close>

definition handleConfirmChange :: "env \<Rightarrow> bool \<Rightarrow> state \<times> world \<Rightarrow> state \<times> world" where
  "handleConfirmChange en confirmed = (\<lambda>(s, w).
     if \<not> confirmed \<or> \<not> truthy (pendingChange s)
     then (s\<lparr>pendingChange := JNull, messages := []\<rparr>, w)
     else
       (case commit en s w of
          (None, w1) \<Rightarrow>
            (s\<lparr>pendingChange := JNull, messages := []\<rparr>,
             emit [Toast (str ''Success'') (str ''Prompt updated successfully'') Success] w1)
        | (Some e, w1) \<Rightarrow>
            (s, emit [Console_error (str ''Error:'') (Some e),
                      Toast (str ''Error'')
                        (or_default (message e) (str ''Failed to update prompt''))
                        Failure] w1)))"

section \<open>The controls\<close>

text \<open>
  The handlers are reached through the rendered controls only.  The input field is
  disabled while a request is in flight or a proposal is pending.  The send button is
  given \<open>isLoading\<close> and, as its \<open>disabled\<close> property, whether the input is blank or a
  proposal is pending; what it makes of the two is the library's.  The two confirmation
  buttons are rendered only while a proposal is pending.  A disabled or absent control
  delivers no event.  Selecting the mode that is selected already changes no state, so
  that the effect that loads the user data does not run.
\<close>

definition input_disabled :: "state \<Rightarrow> bool" where
  "input_disabled s = (isLoading s \<or> truthy (pendingChange s))"

definition send_disabled :: "env \<Rightarrow> state \<Rightarrow> bool" where
  "send_disabled en s =
     Button_disabled en (isLoading s) (trim (inputMessage s) = [] \<or> truthy (pendingChange s))"

datatype ui_event =
    Input_change jsstring
  | Input_key_press jsstring
  | Send_click
  | Confirm_click bool
  | Toggle_click
  | Mode_change Mode

fun dispatch :: "env \<Rightarrow> ui_event \<Rightarrow> state \<times> world \<Rightarrow> state \<times> world" where
  "dispatch en (Input_change v) (s, w) =
     (if input_disabled s then (s, w) else (s\<lparr>inputMessage := v\<rparr>, w))"
| "dispatch en (Input_key_press k) (s, w) =
     (if input_disabled s then (s, w)
      else if k = str ''Enter'' then handleSendMessage en (s, w) else (s, w))"
| "dispatch en Send_click (s, w) =
     (if send_disabled en s then (s, w) else handleSendMessage en (s, w))"
| "dispatch en (Confirm_click b) (s, w) =
     (if truthy (pendingChange s) then handleConfirmChange en b (s, w) else (s, w))"
| "dispatch en Toggle_click (s, w) = toggleConversation en (s, w)"
| "dispatch en (Mode_change m) (s, w) =
     (if m = selectedMode s then (s, w) else loadUserData en (s\<lparr>selectedMode := m\<rparr>, w))"

section \<open>Example inputs\<close>

text \<open>A signed-in user with a stored prompt, services that answer, and a pending proposal.\<close>

definition example_proposal :: json where
  "example_proposal =
     JObject [(str ''prompt'', JString (str ''Hi there! How can I help you today?'')),
              (str ''summary'', JString (str ''Made greeting warmer''))]"

definition example_document :: document where
  "example_document =
     [str ''customerGeneralPrompt'' \<mapsto> JString (str ''Hello, how can I help?''),
      str ''restaurantName'' \<mapsto> JString (str ''Luigi'')]"

definition example_world :: world where
  "example_world = \<lparr>db = [str ''u1'' \<mapsto> example_document], effects = []\<rparr>"

definition example_env :: env where
  \<open>example_env =
     \<lparr>currentUser = Some (str ''u1''),
      getDoc_fails = None,
      generatePrompt = (\<lambda>d m. JString (str ''You are a helpful assistant.'')),
      ToString_other = (\<lambda>v. Inr (str ''undefined'')),
      chat_completions = (\<lambda>sys usr. Content (str ''{"prompt":"Hi","summary":"Shorter"}'')),
      updateDoc_fails = None,
      firestore_invalid_data = Error (str ''Unsupported field value: undefined''),
      firestore_not_found = Error (str ''No document to update''),
      updateLLM_fails = None,
      stopCall_fails = None,
      create_web_call = (\<lambda>a. Call_created None None),
      startCall_fails = None,
      Button_disabled = (\<lambda>loading disabled. loading \<or> disabled)\<rparr>\<close>

definition pending_state :: state where
  "pending_state =
     initial_state
       \<lparr>messages := [\<lparr>role = User, content = str ''make it friendlier''\<rparr>,
                     \<lparr>role = Assistant, content = str ''Made greeting warmer''\<rparr>],
        pendingChange := example_proposal\<rparr>"

definition failed_state :: state where
  "failed_state =
     initial_state
       \<lparr>messages := [\<lparr>role = User, content = str ''make it friendlier''\<rparr>,
                     \<lparr>role = Assistant, content = error_message no_valid_json\<rparr>]\<rparr>"

definition typing_state :: state where
  "typing_state = initial_state\<lparr>inputMessage := str ''make it friendlier''\<rparr>"

definition busy_state :: state where
  "busy_state = pending_state\<lparr>inputMessage := str ''and shorter''\<rparr>"

definition other_document :: document where
  "other_document = [str ''customerGeneralPrompt'' \<mapsto> JString (str ''Welcome to Mario'')]"

definition two_user_world :: world where
  "two_user_world =
     \<lparr>db = [str ''u1'' \<mapsto> example_document, str ''u2'' \<mapsto> other_document], effects = []\<rparr>"

definition unset_world :: world where
  "unset_world =
     \<lparr>db = [str ''u1'' \<mapsto> example_document(str ''customerGeneralPrompt'' \<mapsto> JString [])],
      effects = []\<rparr>"

section \<open>An invariant of the parser\<close>

text \<open>The lowest frame of the stack is an object: the text being parsed began with \<open>{\<close>.\<close>

fun bottom_obj :: "frame list \<Rightarrow> bool" where
  "bottom_obj [] = False"
| "bottom_obj [Obj kvs] = True"
| "bottom_obj [f] = False"
| "bottom_obj (f # g # st) = bottom_obj (g # st)"

section \<open>Properties of the response extractor\<close>

subsection \<open>The match of the pattern\<close>

lemma longest_to_rbrace_suffix:
  assumes "of_char CHR ''}'' \<notin> set post"
  shows "longest_to_rbrace (mid @ [of_char CHR ''}''] @ post) = Some (mid @ [of_char CHR ''}''])"
proof -
  have "dropWhile (\<lambda>c. c \<noteq> of_char CHR ''}'') (rev post @ of_char CHR ''}'' # rev mid)
        = dropWhile (\<lambda>c. c \<noteq> of_char CHR ''}'') (of_char CHR ''}'' # rev mid)"
    using assms by (intro dropWhile_append2) auto
  then show ?thesis
    by (simp add: longest_to_rbrace_def)
qed

lemma match_object_regex_skip:
  "of_char CHR ''{'' \<notin> set pre \<Longrightarrow> match_object_regex (pre @ t) = match_object_regex t"
  by (induction pre) auto

lemma match_object_regex_embedded:
  assumes "of_char CHR ''{'' \<notin> set pre" and "of_char CHR ''}'' \<notin> set post"
  shows "match_object_regex (pre @ (of_char CHR ''{'' # mid @ [of_char CHR ''}'']) @ post)
         = Some (of_char CHR ''{'' # mid @ [of_char CHR ''}''])"
proof -
  have "match_object_regex (of_char CHR ''{'' # (mid @ [of_char CHR ''}''] @ post))
        = Some (of_char CHR ''{'' # mid @ [of_char CHR ''}''])"
    using longest_to_rbrace_suffix [OF assms(2), of mid] by simp
  then show ?thesis
    using match_object_regex_skip [OF assms(1)] by simp
qed

lemma match_object_regex_starts:
  "match_object_regex t = Some m \<Longrightarrow> \<exists>cs. m = of_char CHR ''{'' # cs"
  by (induction t) (auto split: if_splits option.splits)

subsection \<open>A text that begins with a brace parses, if at all, to an object\<close>

lemma push_bottom: "bottom_obj st \<Longrightarrow> bottom_obj (f # st)"
  by (cases st) auto

lemma reduce_bottom:
  "bottom_obj st \<Longrightarrow> reduce v st = Some (e, st') \<Longrightarrow> bottom_obj st' \<and> e = Want_sep"
proof (induction v st rule: reduce.induct)
  case (2 v vs st)
  then show ?case by (cases st) auto
next
  case (3 v k kvs st)
  then show ?case by (cases st) auto
qed auto

lemma close_array_bottom:
  "bottom_obj st \<Longrightarrow> close_array st = Some (e, st') \<Longrightarrow> bottom_obj st' \<and> e = Want_sep"
proof (induction st rule: close_array.induct)
  case (1 vs st)
  then have "bottom_obj st" by (cases st) auto
  with 1 show ?case by (auto dest: reduce_bottom)
qed auto

lemma close_object_bottom:
  "bottom_obj st \<Longrightarrow> close_object st = Some (e, st') \<Longrightarrow>
     (bottom_obj st' \<and> e = Want_sep) \<or> (\<exists>kvs. e = Finished (JObject kvs))"
proof (induction st rule: close_object.induct)
  case (1 kvs st)
  show ?case
  proof (cases st)
    case Nil
    with 1 show ?thesis by auto
  next
    case (Cons f fs)
    then have "bottom_obj st" using 1(1) by simp
    with 1 show ?thesis by (auto dest: reduce_bottom)
  qed
qed auto

lemma begin_value_bottom:
  "bottom_obj st \<Longrightarrow> begin_value t st = Some (e, st') \<Longrightarrow> bottom_obj st' \<and> (\<forall>v. e \<noteq> Finished v)"
  by (cases t) (auto dest: reduce_bottom simp: push_bottom)

lemma begin_key_bottom:
  "bottom_obj st \<Longrightarrow> begin_key t st = Some (e, st') \<Longrightarrow> bottom_obj st' \<and> (\<forall>v. e \<noteq> Finished v)"
  by (cases t) (auto simp: push_bottom)

lemma after_comma_bottom:
  "bottom_obj st \<Longrightarrow> after_comma st = Some (e, st') \<Longrightarrow> bottom_obj st' \<and> (\<forall>v. e \<noteq> Finished v)"
  by (induction st rule: after_comma.induct) auto

lemma pstep_bottom:
  assumes "bottom_obj st" and "pstep e st t = Some (e', st')"
  shows "(bottom_obj st' \<and> (\<forall>v. e' \<noteq> Finished v)) \<or> (\<exists>kvs. e' = Finished (JObject kvs))"
proof (cases e)
  case Want_sep
  with assms show ?thesis
    by (auto split: if_splits
        dest: after_comma_bottom close_array_bottom close_object_bottom)
next
  case Want_key_or_close
  with assms show ?thesis
    by (auto split: if_splits dest: begin_key_bottom close_object_bottom)
next
  case Want_value_or_close
  with assms show ?thesis
    by (auto split: if_splits dest: begin_value_bottom close_array_bottom)
qed (use assms in \<open>auto split: if_splits dest: begin_value_bottom begin_key_bottom\<close>)

lemma run_finished: "run (Finished u) st ts = Some v \<Longrightarrow> v = u"
  by (cases ts) auto

lemma run_bottom:
  "bottom_obj st \<Longrightarrow> \<forall>u. e \<noteq> Finished u \<Longrightarrow> run e st ts = Some v \<Longrightarrow> \<exists>kvs. v = JObject kvs"
proof (induction ts arbitrary: e st)
  case Nil
  then show ?case by (cases e) auto
next
  case (Cons t ts)
  from Cons.prems(3) obtain e' st' where p: "pstep e st t = Some (e', st')" and r: "run e' st' ts = Some v"
    by (auto split: option.splits)
  from pstep_bottom [OF Cons.prems(1) p] show ?case
  proof
    assume "bottom_obj st' \<and> (\<forall>v. e' \<noteq> Finished v)"
    with Cons.IH r show ?thesis by blast
  next
    assume "\<exists>kvs. e' = Finished (JObject kvs)"
    with r show ?thesis by (auto dest: run_finished)
  qed
qed

lemma tokens_from_lbrace:
  "tokens_from Ready (of_char CHR ''{'' # cs) = Some ts \<Longrightarrow> \<exists>ts'. ts = LBrace # ts'"
  by (auto simp: start_def is_ws_def split: option.splits)

lemma JSON_parse_object:
  assumes "JSON_parse (of_char CHR ''{'' # cs) = Inr v"
  shows "\<exists>kvs. v = JObject kvs"
proof -
  from assms obtain ts where t: "tokens_from Ready (of_char CHR ''{'' # cs) = Some ts"
    and r: "run Want_value [] ts = Some v"
    by (auto simp: JSON_parse_def split: option.splits)
  from tokens_from_lbrace [OF t] obtain ts' where "ts = LBrace # ts'" ..
  with r have "run Want_key_or_close [Obj []] ts' = Some v" by simp
  then show ?thesis
    by (rule run_bottom [rotated 2]) auto
qed

subsection \<open>Recovering an object from prose\<close>

text \<open>
  C1, as the code has it.  Let a text that does not parse as a whole consist of prose,
  an object literal that runs from a \<open>{\<close> to a \<open>}\<close>, and more prose.  If the prose before
  the literal holds no \<open>{\<close> and the prose after it holds no \<open>}\<close>, and the literal parses to
  a value whose \<open>prompt\<close> and \<open>summary\<close> are both truthy, then \<open>extractJSONFromResponse\<close>
  returns exactly that value.  The prose may hold a \<open>}\<close> before the literal and a \<open>{\<close>
  after it.  The match is the greedy one, from the first \<open>{\<close> of the text to its last
  \<open>}\<close>; no brace depth is counted.
\<close>

theorem extract_embedded_object:
  assumes "JSON_parse (pre @ (of_char CHR ''{'' # mid @ [of_char CHR ''}'']) @ post) = Inl x"
      and "of_char CHR ''{'' \<notin> set pre" and "of_char CHR ''}'' \<notin> set post"
      and "JSON_parse (of_char CHR ''{'' # mid @ [of_char CHR ''}'']) = Inr v"
      and "get_property v (str ''prompt'') = Inr (Some p)" and "truthy p"
      and "get_property v (str ''summary'') = Inr (Some q)" and "truthy q"
  shows "extractJSONFromResponse (pre @ (of_char CHR ''{'' # mid @ [of_char CHR ''}'']) @ post) = Inr v"
proof -
  have "has_fields v = Inr True"
    using assms(5-8) by (simp add: has_fields_def)
  then show ?thesis
    using assms(1,4) match_object_regex_embedded [OF assms(2,3), of mid]
    by (simp add: extractJSONFromResponse_def)
qed

theorem extract_embedded_object_witness:
  \<open>extractJSONFromResponse
     (str ''} Result: '' @ (of_char CHR ''{'' # str ''"prompt":"a","summary":"b"'' @ [of_char CHR ''}'']) @ str '' :-{'')
   = Inr (JObject [(str ''prompt'', JString (str ''a'')), (str ''summary'', JString (str ''b''))])\<close>
proof -
  have 1: \<open>JSON_parse (str ''} Result: '' @ (of_char CHR ''{'' # str ''"prompt":"a","summary":"b"'' @ [of_char CHR ''}'']) @ str '' :-{'')
      = Inl (SyntaxError (str ''Unexpected token''))\<close>
    by code_simp
  have 2: "of_char CHR ''{'' \<notin> set (str ''} Result: '')" by code_simp
  have 3: "of_char CHR ''}'' \<notin> set (str '' :-{'')" by code_simp
  have 4: \<open>JSON_parse (of_char CHR ''{'' # str ''"prompt":"a","summary":"b"'' @ [of_char CHR ''}''])
      = Inr (JObject [(str ''prompt'', JString (str ''a'')), (str ''summary'', JString (str ''b''))])\<close>
    by code_simp
  have 5: "get_property (JObject [(str ''prompt'', JString (str ''a'')), (str ''summary'', JString (str ''b''))]) (str ''prompt'')
      = Inr (Some (JString (str ''a'')))" by code_simp
  have 6: "truthy (JString (str ''a''))" by code_simp
  have 7: "get_property (JObject [(str ''prompt'', JString (str ''a'')), (str ''summary'', JString (str ''b''))]) (str ''summary'')
      = Inr (Some (JString (str ''b'')))" by code_simp
  have 8: "truthy (JString (str ''b''))" by code_simp
  show ?thesis
    by (rule extract_embedded_object [OF 1 2 3 4 5 6 7 8])
qed

text \<open>
  The statement with arbitrary prose fails.  The literal \<open>{"prompt":"a","summary":"b"}\<close>
  parses to an object with both fields, yet a \<open>}\<close> in the prose after it, or a \<open>{\<close> in the
  prose before it, makes the match too long to parse and the extraction fails.  An empty
  \<open>prompt\<close> is present but falsy, and the extraction fails as well.
\<close>

theorem greedy_match_counterexample:
  \<open>JSON_parse (str ''{"prompt":"a","summary":"b"}'') =
     Inr (JObject [(str ''prompt'', JString (str ''a'')), (str ''summary'', JString (str ''b''))]) \<and>
   extractJSONFromResponse (str ''Result: {"prompt":"a","summary":"b"} :-}'') = Inl invalid_structure \<and>
   extractJSONFromResponse (str ''In {braces}: {"prompt":"a","summary":"b"}'') = Inl invalid_structure \<and>
   JSON_parse (str ''{"prompt":"","summary":"b"}'') =
     Inr (JObject [(str ''prompt'', JString []), (str ''summary'', JString (str ''b''))]) \<and>
   extractJSONFromResponse (str ''Result: {"prompt":"","summary":"b"}'') = Inl no_valid_json\<close>
  by code_simp

subsection \<open>The errors of the extractor\<close>

text \<open>
  C6, as the code has it.  Whenever \<open>extractJSONFromResponse\<close> fails, the text does not
  parse as a whole and the failure is one of two \<open>Error\<close> values, told apart by their
  message.  It is "Invalid JSON structure in response" exactly when the pattern matches
  and the match does not parse.  It is "No valid JSON found in response" when the pattern
  does not match, and also when the match parses to an object in which \<open>prompt\<close> or
  \<open>summary\<close> is absent or falsy.  Nothing else is thrown.
\<close>

theorem extract_failure_kinds:
  assumes "extractJSONFromResponse t = Inl e"
  shows "(\<exists>x. JSON_parse t = Inl x) \<and>
     ((e = invalid_structure \<and> (\<exists>m x. match_object_regex t = Some m \<and> JSON_parse m = Inl x)) \<or>
      (e = no_valid_json \<and>
         (match_object_regex t = None \<or>
          (\<exists>m kvs. match_object_regex t = Some m \<and> JSON_parse m = Inr (JObject kvs) \<and>
             \<not> (truthy_opt (map_of kvs (str ''prompt'')) \<and> truthy_opt (map_of kvs (str ''summary'')))))))"
proof (cases "JSON_parse t")
  case (Inr v)
  with assms show ?thesis by (simp add: extractJSONFromResponse_def)
next
  case (Inl x)
  show ?thesis
  proof (cases "match_object_regex t")
    case None
    with Inl assms show ?thesis by (auto simp: extractJSONFromResponse_def)
  next
    case (Some m)
    then obtain cs where m: "m = of_char CHR ''{'' # cs"
      using match_object_regex_starts by blast
    show ?thesis
    proof (cases "JSON_parse m")
      case l: (Inl y)
      with Inl Some assms show ?thesis by (auto simp: extractJSONFromResponse_def)
    next
      case r: (Inr v)
      with m obtain kvs where v: "v = JObject kvs"
        using JSON_parse_object by blast
      with Inl Some r assms show ?thesis
        by (auto simp: extractJSONFromResponse_def has_fields_def split: if_splits bool.splits)
    qed
  qed
qed

theorem extract_failure_kinds_witness:
  \<open>extractJSONFromResponse (str ''Here you go: {"note":"nothing to change"}'') = Inl no_valid_json \<and>
   (\<exists>x. JSON_parse (str ''Here you go: {"note":"nothing to change"}'') = Inl x) \<and>
   (\<exists>m kvs. match_object_regex (str ''Here you go: {"note":"nothing to change"}'') = Some m \<and>
      JSON_parse m = Inr (JObject kvs) \<and>
      \<not> (truthy_opt (map_of kvs (str ''prompt'')) \<and> truthy_opt (map_of kvs (str ''summary''))))\<close>
proof -
  have h: \<open>extractJSONFromResponse (str ''Here you go: {"note":"nothing to change"}'') = Inl no_valid_json\<close>
    by code_simp
  have m: \<open>match_object_regex (str ''Here you go: {"note":"nothing to change"}'') \<noteq> None\<close>
    by code_simp
  have d: "invalid_structure \<noteq> no_valid_json" by code_simp
  from extract_failure_kinds [OF h] h m d show ?thesis by auto
qed

text \<open>
  The errors are not distributed as two kinds, one for a match that parses but lacks a
  field and one for no parsable match.  A match that parses and lacks both fields fails
  with the same error as a text without any brace, and a match that does not parse fails
  with the other one.
\<close>

theorem error_kinds_counterexample:
  \<open>match_object_regex (str ''Here you go: {"note":"nothing to change"}'') =
     Some (str ''{"note":"nothing to change"}'') \<and>
   JSON_parse (str ''{"note":"nothing to change"}'') =
     Inr (JObject [(str ''note'', JString (str ''nothing to change''))]) \<and>
   extractJSONFromResponse (str ''Here you go: {"note":"nothing to change"}'') = Inl no_valid_json \<and>
   match_object_regex (str ''I cannot help with that.'') = None \<and>
   extractJSONFromResponse (str ''I cannot help with that.'') = Inl no_valid_json \<and>
   match_object_regex (str ''Here you go: {prompt: none}'') = Some (str ''{prompt: none}'') \<and>
   JSON_parse (str ''{prompt: none}'') = Inl (SyntaxError (str ''Unexpected token'')) \<and>
   extractJSONFromResponse (str ''Here you go: {prompt: none}'') = Inl invalid_structure \<and>
   invalid_structure \<noteq> no_valid_json\<close>
  by code_simp

subsection \<open>The direct parse\<close>

text \<open>
  C7 says that a text which parses as a whole is returned as a proposal only if it has
  both \<open>prompt\<close> and \<open>summary\<close>.  The first \<open>try\<close> of \<open>extractJSONFromResponse\<close> returns
  the parsed value without looking at it, whereas the path through the pattern does
  check both fields.  Here an object with a summary and no prompt is returned as the
  proposal, and reading its \<open>prompt\<close> gives \<open>undefined\<close>.
\<close>

theorem direct_parse_unchecked:
  \<open>extractJSONFromResponse (str ''{"summary":"Made it shorter"}'') =
     Inr (JObject [(str ''summary'', JString (str ''Made it shorter''))]) \<and>
   get_property (JObject [(str ''summary'', JString (str ''Made it shorter''))]) (str ''prompt'') = Inr None\<close>
  by code_simp

section \<open>Properties of the prompt mutation workflow\<close>

lemma emit_emit: "emit bs (emit as w) = emit (as @ bs) w"
  by (simp add: emit_def)

lemmas example_defs =
  example_env_def example_world_def example_document_def example_proposal_def
  pending_state_def failed_state_def typing_state_def unset_world_def initial_state_def
  busy_state_def other_document_def two_user_world_def

lemma request_proposal_sends:
  assumes "currentUser en = Some u" and "getDoc_fails en = None" and "db w u = Some d"
      and "systemPrompt en (currentPrompt en d (selectedMode s)) = Inr sys"
  shows "\<exists>r. request_proposal en s w = (r, emit [Chat_completion_request sys (inputMessage s)] w)"
  using assms by (simp add: request_proposal_def Let_def split: completion.splits)

lemma handleSendMessage_effects:
  assumes "trim (inputMessage s) \<noteq> []" and "request_proposal en s w = (r, w1)"
  shows "\<exists>rest. effects (snd (handleSendMessage en (s, w))) = effects w1 @ rest"
  using assms by (auto simp: handleSendMessage_def Let_def emit_def split: sum.splits)

subsection \<open>Submitting while busy\<close>

lemma example_completion:
  \<open>extractJSONFromResponse (str ''{"prompt":"Hi","summary":"Shorter"}'') =
     Inr (JObject [(str ''prompt'', JString (str ''Hi'')), (str ''summary'', JString (str ''Shorter''))])\<close>
  by code_simp

lemma example_completion_nonempty: \<open>str ''{"prompt":"Hi","summary":"Shorter"}'' \<noteq> []\<close>
  by (simp add: str_def)

lemma example_env_fields:
  \<open>currentUser example_env = Some (str ''u1'')\<close>
  \<open>getDoc_fails example_env = None\<close>
  \<open>chat_completions example_env sys usr = Content (str ''{"prompt":"Hi","summary":"Shorter"}'')\<close>
  by (simp_all add: example_env_def)

lemma example_current_prompt:
  "currentPrompt example_env example_document (str ''customer'') = JString (str ''Hello, how can I help?'')"
  by (simp add: currentPrompt_def example_document_def str_def)





subsection \<open>A commit that fails\<close>

text \<open>
  C3, as the code has it.  Let a proposal be pending and a user be signed in, and let
  \<open>handleConfirmChange\<close> be called with \<open>true\<close>.  If the write fails, the error is logged
  and shown in a toast, nothing is written, and the state is unchanged: the proposal
  stays pending and the transcript stays as it is.  If the write succeeds and \<open>updateLLM\<close>
  fails, the write stands, the error is logged and shown, and the state is unchanged as
  well.  The proposal and the transcript are cleared only after both have succeeded.
\<close>

theorem failed_commit_keeps_proposal:
  assumes "truthy (pendingChange s)" and "currentUser en = Some u"
      and "get_property (pendingChange s) (str ''prompt'') = Inr p"
  shows "(updateDoc en u (selectedMode s @ str ''GeneralPrompt'') p w = Inl e \<longrightarrow>
            handleConfirmChange en True (s, w) =
              (s, emit [Console_error (str ''Error:'') (Some e),
                        Toast (str ''Error'') (or_default (message e) (str ''Failed to update prompt'')) Failure] w)) \<and>
         (updateDoc en u (selectedMode s @ str ''GeneralPrompt'') p w = Inr w1 \<and> updateLLM_fails en = Some e \<longrightarrow>
            handleConfirmChange en True (s, w) =
              (s, emit [Update_LLM u (selectedMode s),
                        Console_error (str ''Error:'') (Some e),
                        Toast (str ''Error'') (or_default (message e) (str ''Failed to update prompt'')) Failure] w1))"
  using assms by (simp add: handleConfirmChange_def commit_def emit_emit)

theorem failed_commit_keeps_proposal_witness:
  "handleConfirmChange (example_env\<lparr>updateDoc_fails := Some (Error (str ''unavailable''))\<rparr>) True
     (pending_state, example_world) =
     (pending_state,
      emit [Console_error (str ''Error:'') (Some (Error (str ''unavailable''))),
            Toast (str ''Error'') (str ''unavailable'') Failure] example_world) \<and>
   handleConfirmChange (example_env\<lparr>updateLLM_fails := Some (Error (str ''agent not found''))\<rparr>) True
     (pending_state, example_world) =
     (pending_state,
      emit [Update_LLM (str ''u1'') (str ''customer''),
            Console_error (str ''Error:'') (Some (Error (str ''agent not found''))),
            Toast (str ''Error'') (str ''agent not found'') Failure]
        (emit [Update_doc (str ''u1'') (str ''customerGeneralPrompt'')
                 (JString (str ''Hi there! How can I help you today?''))]
           (example_world\<lparr>db := (db example_world)(str ''u1'' \<mapsto>
              example_document(str ''customerGeneralPrompt'' \<mapsto>
                JString (str ''Hi there! How can I help you today?'')))\<rparr>)))"
proof -
  let ?p = "JString (str ''Hi there! How can I help you today?'')"
  let ?ew = "example_env\<lparr>updateDoc_fails := Some (Error (str ''unavailable''))\<rparr>"
  let ?ea = "example_env\<lparr>updateLLM_fails := Some (Error (str ''agent not found''))\<rparr>"
  have t: "truthy (pendingChange pending_state)"
    by (simp add: example_defs)
  have m: "selectedMode pending_state @ str ''GeneralPrompt'' = str ''customerGeneralPrompt''"
    by (simp add: example_defs str_def)
  have sm: "selectedMode pending_state = str ''customer''"
    by (simp add: example_defs)
  have p: "get_property (pendingChange pending_state) (str ''prompt'') = Inr (Some ?p)"
    by (simp add: example_defs str_def)
  have uw: "currentUser ?ew = Some (str ''u1'')" and ua: "currentUser ?ea = Some (str ''u1'')"
    by (simp_all add: example_defs)
  have w: "updateDoc ?ew (str ''u1'') (selectedMode pending_state @ str ''GeneralPrompt'') (Some ?p) example_world
      = Inl (Error (str ''unavailable''))"
    by (simp add: updateDoc_def example_defs)
  have a: "updateDoc ?ea (str ''u1'') (selectedMode pending_state @ str ''GeneralPrompt'') (Some ?p) example_world
      = Inr (emit [Update_doc (str ''u1'') (str ''customerGeneralPrompt'') ?p]
           (example_world\<lparr>db := (db example_world)(str ''u1'' \<mapsto>
              example_document(str ''customerGeneralPrompt'' \<mapsto> ?p))\<rparr>))
      \<and> updateLLM_fails ?ea = Some (Error (str ''agent not found''))"
    unfolding m by (simp add: updateDoc_def example_env_def example_world_def)
  have o1: "or_default (message (Error (str ''unavailable''))) (str ''Failed to update prompt'') = str ''unavailable''"
    by (simp add: or_default_def str_def)
  have o2: "or_default (message (Error (str ''agent not found''))) (str ''Failed to update prompt'') = str ''agent not found''"
    by (simp add: or_default_def str_def)
  from failed_commit_keeps_proposal [OF t uw p, of example_world "Error (str ''unavailable'')"] w
       failed_commit_keeps_proposal [OF t ua p, of example_world "Error (str ''agent not found'')"] a
  show ?thesis
    unfolding o1 o2 sm by blast
qed

text \<open>
  After a commit whose write fails, the proposal is still pending and the transcript is
  not empty.
\<close>

theorem failed_commit_counterexample:
  "pendingChange (fst (handleConfirmChange
      (example_env\<lparr>updateDoc_fails := Some (Error (str ''unavailable''))\<rparr>) True
      (pending_state, example_world))) = example_proposal \<and>
   messages (fst (handleConfirmChange
      (example_env\<lparr>updateDoc_fails := Some (Error (str ''unavailable''))\<rparr>) True
      (pending_state, example_world))) = messages pending_state \<and>
   example_proposal \<noteq> JNull \<and> messages pending_state \<noteq> []"
  by (simp add: handleConfirmChange_def commit_def updateDoc_def example_defs)

subsection \<open>A commit that succeeds in writing\<close>

text \<open>
  C4, as the code has it.  Let a proposal with the prompt \<open>p\<close> be pending, in any mode,
  let \<open>u\<close> be the user who is signed in when the confirmation is handled, let \<open>u\<close> have a
  document, and let the write go through.  Then \<open>handleConfirmChange\<close> with \<open>true\<close> sets
  the field \<open><mode>GeneralPrompt\<close> of the document of \<open>u\<close> to \<open>p\<close> and changes nothing else
  in the store: every other field of that document and every other document is as
  before.  The first two effects are the write and then the call of \<open>updateLLM\<close> with \<open>u\<close>
  and the mode.  The proposal does not record who submitted the request;
  \<open>auth.currentUser\<close> is read anew.
\<close>

theorem confirm_writes_prompt:
  assumes "currentUser en = Some u"
      and "get_property (pendingChange s) (str ''prompt'') = Inr (Some p)"
      and "updateDoc_fails en = None" and "db w u = Some d"
  shows "db (snd (handleConfirmChange en True (s, w))) =
           (db w)(u \<mapsto> d(selectedMode s @ str ''GeneralPrompt'' \<mapsto> p)) \<and>
         (\<exists>rest. effects (snd (handleConfirmChange en True (s, w))) =
            effects w @ Update_doc u (selectedMode s @ str ''GeneralPrompt'') p
              # Update_LLM u (selectedMode s) # rest)"
proof -
  from assms(2) have "truthy (pendingChange s)"
    by (cases "pendingChange s") (auto split: if_splits)
  with assms show ?thesis
    by (cases "updateLLM_fails en")
       (simp_all add: handleConfirmChange_def commit_def updateDoc_def emit_def)
qed

theorem confirm_writes_prompt_witness:
  "db (snd (handleConfirmChange example_env True (pending_state, example_world))) =
     (db example_world)(str ''u1'' \<mapsto>
        example_document(str ''customer'' @ str ''GeneralPrompt'' \<mapsto>
          JString (str ''Hi there! How can I help you today?''))) \<and>
   (\<exists>rest. effects (snd (handleConfirmChange example_env True (pending_state, example_world))) =
      effects example_world @
        Update_doc (str ''u1'') (str ''customer'' @ str ''GeneralPrompt'')
          (JString (str ''Hi there! How can I help you today?''))
        # Update_LLM (str ''u1'') (str ''customer'') # rest)"
proof -
  have 1: "currentUser example_env = Some (str ''u1'')"
    by (simp add: example_defs)
  have 2: "get_property (pendingChange pending_state) (str ''prompt'')
      = Inr (Some (JString (str ''Hi there! How can I help you today?'')))"
    by (simp add: example_defs str_def)
  have 3: "updateDoc_fails example_env = None"
    by (simp add: example_defs)
  have 4: "db example_world (str ''u1'') = Some example_document"
    by (simp add: example_world_def)
  have sm: "selectedMode pending_state = str ''customer''"
    by (simp add: example_defs)
  from confirm_writes_prompt [OF 1 2 3 4] show ?thesis
    unfolding sm .
qed

text \<open>
  The user \<open>u1\<close> submits a request and a proposal becomes pending; the confirmation is
  handled with \<open>u2\<close> signed in.  The prompt is written to the document of \<open>u2\<close>, and the
  document of \<open>u1\<close>, who initiated the submission, is as before.
\<close>

theorem confirm_writes_prompt_counterexample:
  "currentUser example_env = Some (str ''u1'') \<and>
   pendingChange (fst (handleSendMessage example_env (typing_state, two_user_world))) =
     JObject [(str ''prompt'', JString (str ''Hi'')), (str ''summary'', JString (str ''Shorter''))] \<and>
   db (snd (handleConfirmChange (example_env\<lparr>currentUser := Some (str ''u2'')\<rparr>) True
        (handleSendMessage example_env (typing_state, two_user_world)))) (str ''u1'')
     = db two_user_world (str ''u1'') \<and>
   db two_user_world (str ''u1'') = Some example_document \<and>
   db (snd (handleConfirmChange (example_env\<lparr>currentUser := Some (str ''u2'')\<rparr>) True
        (handleSendMessage example_env (typing_state, two_user_world)))) (str ''u2'')
     = Some (other_document(str ''customerGeneralPrompt'' \<mapsto> JString (str ''Hi'')))"
proof -
  let ?r = "JObject [(str ''prompt'', JString (str ''Hi'')), (str ''summary'', JString (str ''Shorter''))]"
  let ?w = "emit [Chat_completion_request (system_prefix @ str ''Hello, how can I help?'')
                    (str ''make it friendlier'')] two_user_world"
  have t: "trim (inputMessage typing_state) \<noteq> []"
    by (simp add: example_defs trim_def is_trim_space_def str_def)
  have n: "str ''u1'' \<noteq> str ''u2''"
    by (simp add: str_def)
  have r: "request_proposal example_env typing_state two_user_world = (Inr ?r, ?w)"
    using n by (simp add: request_proposal_def systemPrompt_def interpolate_def
        example_current_prompt example_completion example_completion_nonempty
        example_env_fields example_world_def two_user_world_def
        busy_state_def pending_state_def typing_state_def initial_state_def)
  obtain c where c: "proposal_message example_env ?r = Inr c"
    by (simp add: proposal_message_def interpolate_def str_def)
  have h: "handleSendMessage example_env (typing_state, two_user_world) =
      (typing_state\<lparr>isLoading := True,
          messages := messages typing_state @ [\<lparr>role = User, content = inputMessage typing_state\<rparr>],
          inputMessage := [],
          pendingChange := ?r,
          messages := (messages typing_state @ [\<lparr>role = User, content = inputMessage typing_state\<rparr>])
             @ [\<lparr>role = Assistant, content = c\<rparr>],
          isLoading := False\<rparr>, ?w)"
    using t by (simp add: handleSendMessage_def r c)
  have k: "str ''customer'' @ str ''GeneralPrompt'' = str ''customerGeneralPrompt''"
    by (simp add: str_def)
  have "currentUser example_env = Some (str ''u1'')"
    by (simp add: example_defs)
  moreover have "db two_user_world (str ''u1'') = Some example_document"
    using n by (simp add: two_user_world_def)
  moreover have "db (snd (handleConfirmChange (example_env\<lparr>currentUser := Some (str ''u2'')\<rparr>) True
        (handleSendMessage example_env (typing_state, two_user_world)))) =
      (db two_user_world)(str ''u2'' \<mapsto> other_document(str ''customerGeneralPrompt'' \<mapsto> JString (str ''Hi'')))"
    unfolding h
    by (simp add: handleConfirmChange_def commit_def updateDoc_def emit_def k
        example_env_def two_user_world_def typing_state_def initial_state_def)
  ultimately show ?thesis
    unfolding h using n by simp
qed

subsection \<open>Discarding\<close>

text \<open>
  C5.  \<open>handleConfirmChange\<close> with \<open>false\<close> clears the pending proposal and the transcript
  and leaves the world as it is, whatever the proposal holds: nothing is written and no
  service is called.
\<close>

theorem discard_resets_without_write:
  "handleConfirmChange en False (s, w) = (s\<lparr>pendingChange := JNull, messages := []\<rparr>, w)"
  by (simp add: handleConfirmChange_def)

theorem discard_resets_without_write_witness:
  "handleConfirmChange example_env False (pending_state, example_world) =
     (pending_state\<lparr>pendingChange := JNull, messages := []\<rparr>, example_world)"
  by (rule discard_resets_without_write)

subsection \<open>The guards of the confirmation\<close>

text \<open>
  C8, as the code has it.  Without a pending proposal the two confirmation buttons are
  not rendered, and a confirmation changes nothing: no write, and the state as it was.
  With a pending proposal and \<open>false\<close>, \<open>handleConfirmChange\<close> never looks the user up:
  it resets the proposal and the transcript and writes nothing, also when nobody is
  signed in, and no error is raised.  With a pending proposal, \<open>true\<close> and nobody signed
  in, it logs and shows the error "No authenticated user", writes nothing and leaves
  the state as it is.
\<close>

theorem confirm_guards:
  "(\<not> truthy (pendingChange s) \<longrightarrow> dispatch en (Confirm_click accepted) (s, w) = (s, w)) \<and>
   (truthy (pendingChange s) \<longrightarrow>
      dispatch en (Confirm_click accepted) (s, w) = handleConfirmChange en accepted (s, w) \<and>
      handleConfirmChange en False (s, w) = (s\<lparr>pendingChange := JNull, messages := []\<rparr>, w)) \<and>
   (truthy (pendingChange s) \<and> currentUser en = None \<longrightarrow>
      handleConfirmChange en True (s, w) =
        (s, emit [Console_error (str ''Error:'') (Some (Error (str ''No authenticated user''))),
                  Toast (str ''Error'') (str ''No authenticated user'') Failure] w))"
  by (simp add: handleConfirmChange_def commit_def or_default_def str_def)

theorem confirm_guards_witness:
  "dispatch example_env (Confirm_click True) (failed_state, example_world) =
     (failed_state, example_world) \<and>
   dispatch (example_env\<lparr>currentUser := None\<rparr>) (Confirm_click False) (pending_state, example_world) =
     handleConfirmChange (example_env\<lparr>currentUser := None\<rparr>) False (pending_state, example_world) \<and>
   handleConfirmChange (example_env\<lparr>currentUser := None\<rparr>) False (pending_state, example_world) =
     (pending_state\<lparr>pendingChange := JNull, messages := []\<rparr>, example_world) \<and>
   handleConfirmChange (example_env\<lparr>currentUser := None\<rparr>) True (pending_state, example_world) =
     (pending_state,
      emit [Console_error (str ''Error:'') (Some (Error (str ''No authenticated user''))),
            Toast (str ''Error'') (str ''No authenticated user'') Failure] example_world)"
proof -
  have 1: "\<not> truthy (pendingChange failed_state)"
    by (simp add: example_defs)
  have 2: "truthy (pendingChange pending_state)"
    by (simp add: example_defs)
  have 3: "currentUser (example_env\<lparr>currentUser := None\<rparr>) = None"
    by simp
  from confirm_guards [of failed_state example_env True example_world] 1
       confirm_guards [of pending_state "example_env\<lparr>currentUser := None\<rparr>" False example_world] 2 3
  show ?thesis by blast
qed

text \<open>
  A proposal is pending and nobody is signed in.  Discarding it raises no error: the
  proposal and the transcript are reset and nothing is logged or shown.
\<close>

theorem confirm_guards_counterexample:
  "truthy (pendingChange pending_state) \<and>
   currentUser (example_env\<lparr>currentUser := None\<rparr>) = None \<and>
   handleConfirmChange (example_env\<lparr>currentUser := None\<rparr>) False (pending_state, example_world) =
     (pending_state\<lparr>pendingChange := JNull, messages := []\<rparr>, example_world) \<and>
   effects example_world = []"
  by (simp add: handleConfirmChange_def example_defs)

subsection \<open>The system instruction\<close>

text \<open>
  C10.  Let the field \<open><mode>GeneralPrompt\<close> of the user's document be absent, \<open>null\<close> or
  the empty string.  Then the current prompt is \<open>generatePrompt\<close> of the whole document
  and the mode, and a submission with a non-blank input sends a request whose system
  message ends with that generated prompt, not with the stored field.
\<close>

theorem default_prompt_used:
  assumes "d (selectedMode s @ str ''GeneralPrompt'') = None
         \<or> d (selectedMode s @ str ''GeneralPrompt'') = Some JNull
         \<or> d (selectedMode s @ str ''GeneralPrompt'') = Some (JString [])"
      and "trim (inputMessage s) \<noteq> []"
      and "currentUser en = Some u" and "getDoc_fails en = None" and "db w u = Some d"
      and "interpolate en (Some (generatePrompt en d (selectedMode s))) = Inr g"
  shows "currentPrompt en d (selectedMode s) = generatePrompt en d (selectedMode s) \<and>
         (\<exists>rest. effects (snd (handleSendMessage en (s, w))) =
            effects w @ Chat_completion_request (system_prefix @ g) (inputMessage s) # rest)"
proof -
  have cp: "currentPrompt en d (selectedMode s) = generatePrompt en d (selectedMode s)"
    using assms(1) by (auto simp: currentPrompt_def)
  then have "systemPrompt en (currentPrompt en d (selectedMode s)) = Inr (system_prefix @ g)"
    using assms(6) by (simp add: systemPrompt_def)
  from request_proposal_sends [OF assms(3,4,5) this] obtain r where
    "request_proposal en s w = (r, emit [Chat_completion_request (system_prefix @ g) (inputMessage s)] w)" ..
  from handleSendMessage_effects [OF assms(2) this] cp show ?thesis
    by (auto simp: emit_def)
qed

theorem default_prompt_used_witness:
  "currentPrompt example_env (example_document(str ''customerGeneralPrompt'' \<mapsto> JString [])) (str ''customer'')
     = JString (str ''You are a helpful assistant.'') \<and>
   (\<exists>rest. effects (snd (handleSendMessage example_env (typing_state, unset_world))) =
      effects unset_world @
        Chat_completion_request (system_prefix @ str ''You are a helpful assistant.'')
          (str ''make it friendlier'') # rest)"
proof -
  let ?d = "example_document(str ''customerGeneralPrompt'' \<mapsto> JString [])"
  have sm: "selectedMode typing_state = str ''customer''" and im: "inputMessage typing_state = str ''make it friendlier''"
    by (simp_all add: example_defs)
  have k: "str ''customer'' @ str ''GeneralPrompt'' = str ''customerGeneralPrompt''"
    by (simp add: str_def)
  have 1: "?d (selectedMode typing_state @ str ''GeneralPrompt'') = None
         \<or> ?d (selectedMode typing_state @ str ''GeneralPrompt'') = Some JNull
         \<or> ?d (selectedMode typing_state @ str ''GeneralPrompt'') = Some (JString [])"
    unfolding sm k by simp
  have 2: "trim (inputMessage typing_state) \<noteq> []"
    unfolding im by (simp add: trim_def is_trim_space_def str_def)
  have 3: "currentUser example_env = Some (str ''u1'')" and 4: "getDoc_fails example_env = None"
    by (simp_all add: example_defs)
  have 5: "db unset_world (str ''u1'') = Some ?d"
    by (simp add: unset_world_def)
  have g: "generatePrompt example_env ?d (selectedMode typing_state) = JString (str ''You are a helpful assistant.'')"
    by (simp add: example_env_def)
  have 6: "interpolate example_env (Some (generatePrompt example_env ?d (selectedMode typing_state)))
      = Inr (str ''You are a helpful assistant.'')"
    unfolding g by (simp add: interpolate_def)
  from default_prompt_used [OF 1 2 3 4 5 6] g show ?thesis
    unfolding sm im by simp
qed

section \<open>Properties of the call session\<close>

text \<open>
  C9, as the code has it.  When \<open>toggleConversation\<close> runs while the call is active, it
  asks the call client to stop.  If that succeeds the status becomes inactive.  If it
  fails the failure is logged and not shown, and the status stays active.
\<close>

theorem toggle_while_active:
  assumes "callStatus s = Active"
  shows "toggleConversation en (s, w) =
     (case stopCall_fails en of
        None \<Rightarrow> (s\<lparr>callStatus := Inactive\<rparr>, emit [Stop_call] w)
      | Some e \<Rightarrow> (s, emit [Stop_call, Console_error (str ''Error stopping call:'') (Some e)] w))"
  using assms by (simp add: toggleConversation_def emit_emit split: option.splits)

theorem toggle_while_active_witness:
  "toggleConversation example_env (initial_state\<lparr>callStatus := Active\<rparr>, example_world) =
     (initial_state\<lparr>callStatus := Active\<rparr>\<lparr>callStatus := Inactive\<rparr>, emit [Stop_call] example_world) \<and>
   toggleConversation (example_env\<lparr>stopCall_fails := Some (Error (str ''teardown failed''))\<rparr>)
     (initial_state\<lparr>callStatus := Active\<rparr>, example_world) =
     (initial_state\<lparr>callStatus := Active\<rparr>,
      emit [Stop_call, Console_error (str ''Error stopping call:'') (Some (Error (str ''teardown failed'')))]
        example_world)"
proof -
  have a: "callStatus (initial_state\<lparr>callStatus := Active\<rparr>) = Active"
    by simp
  have n: "stopCall_fails example_env = None"
    by (simp add: example_defs)
  have f: "stopCall_fails (example_env\<lparr>stopCall_fails := Some (Error (str ''teardown failed''))\<rparr>)
      = Some (Error (str ''teardown failed''))"
    by simp
  from toggle_while_active [OF a, of example_env example_world]
       toggle_while_active [OF a, of "example_env\<lparr>stopCall_fails := Some (Error (str ''teardown failed''))\<rparr>" example_world]
  show ?thesis
    unfolding n f by simp
qed

text \<open>A stop request that fails leaves the status active.\<close>

theorem toggle_while_active_counterexample:
  "callStatus (initial_state\<lparr>callStatus := Active\<rparr>) = Active \<and>
   callStatus (fst (toggleConversation
      (example_env\<lparr>stopCall_fails := Some (Error (str ''teardown failed''))\<rparr>)
      (initial_state\<lparr>callStatus := Active\<rparr>, example_world))) = Active"
  by (simp add: toggleConversation_def example_defs)

end
